theory Spec2Isabelle
  imports
    Complex_Main
    "HOL-Library.Char_ord"
    "HOL-Library.List_Lexorder"
    "HOL-Library.Product_Lexorder"
begin

section \<open>Dates and timestamps\<close>

text \<open>
  A \<open>datetime.date\<close> is the number of days since 1970-01-01; a pandas \<open>Timestamp\<close> is
  its integer value, the number of nanoseconds since 1970-01-01T00:00 in the clock domain
  of the column that holds it (UTC for a timezone-aware column, wall clock for a naive
  one). \<open>NaT\<close> is \<open>None\<close>.
\<close>

type_synonym date = int
type_synonym instant = int

definition ns_per_day :: int where
  "ns_per_day = 86400 * 1000000000"

definition Timestamp :: "date \<Rightarrow> instant" where
  "Timestamp d = d * ns_per_day"

definition Timedelta_days :: "int \<Rightarrow> int" where
  "Timedelta_days n = n * ns_per_day"

definition Timedelta_microseconds :: "int \<Rightarrow> int" where
  "Timedelta_microseconds n = n * 1000"

text \<open>\<open>Timestamp.date()\<close>: the calendar day an instant falls on.\<close>

definition date_of :: "instant \<Rightarrow> date" where
  "date_of t = t div ns_per_day"

section \<open>Cells and strings\<close>

text \<open>
  One value of a parsed table or of a flattened JSON object: an integer, any other text,
  or a missing value.
\<close>

datatype cell = Num int | Str string | NaN

text \<open>Python's \<open>str\<close> of an integer, as the f-string and \<open>astype(str)\<close> produce it.\<close>

definition digit_char :: "nat \<Rightarrow> char" where
  "digit_char d = ''0123456789'' ! d"

fun str_nat :: "nat \<Rightarrow> string" where
  "str_nat n = (if n < 10 then [digit_char n] else str_nat (n div 10) @ [digit_char (n mod 10)])"

declare str_nat.simps [simp del]

definition str_int :: "int \<Rightarrow> string" where
  "str_int i = (if i < 0 then CHR ''-'' # str_nat (nat (- i)) else str_nat (nat i))"

definition astype_str :: "cell \<Rightarrow> string" where
  "astype_str c = (case c of Num i \<Rightarrow> str_int i | Str s \<Rightarrow> s | NaN \<Rightarrow> ''nan'')"

text \<open>\<open>df[name]\<close> at one record: the cell under that column, missing when the record is short.\<close>

definition cell_at :: "(string \<times> cell) list \<Rightarrow> string \<Rightarrow> cell" where
  "cell_at r name = (case map_of r name of Some c \<Rightarrow> c | None \<Rightarrow> NaN)"

text \<open>
  \<open>df[name] = v\<close> at one record: the column is overwritten where it exists and added at
  the end otherwise.
\<close>

definition set_column :: "string \<Rightarrow> cell \<Rightarrow> (string \<times> cell) list \<Rightarrow> (string \<times> cell) list" where
  "set_column name v r =
     (if name \<in> fst ` set r then map (\<lambda>(k, c). if k = name then (k, v) else (k, c)) r
      else r @ [(name, v)])"

text \<open>\<open>str.lower\<close> on ASCII letters and the test \<open>sub in s\<close>.\<close>

definition lower_char :: "char \<Rightarrow> char" where
  "lower_char c =
     (if CHR ''A'' \<le> c \<and> c \<le> CHR ''Z'' then char_of (of_char c + (32::nat)) else c)"

fun contains :: "string \<Rightarrow> string \<Rightarrow> bool" where
  "contains sub [] = (sub = [])"
| "contains sub (c # cs) = (take (length sub) (c # cs) = sub \<or> contains sub cs)"

section \<open>Observation rows and the shared final step\<close>

text \<open>
  One row of a data frame: the two canonical columns and the provider's other columns,
  kept as they came. \<open>tz_aware\<close> says whether the frame the row was built in holds
  timezone-aware (UTC) timestamps or naive ones; it is the same for all rows of a frame
  that one request yields.
\<close>

record row =
  station_id :: string
  timestamp :: "instant option"
  measurements :: "(string \<times> cell) list"
  tz_aware :: bool

text \<open>
  The boolean mask
  \<^verbatim>\<open>df["timestamp"].notna() & (df["timestamp"] >= lo) & (df["timestamp"] <= hi)\<close>.
\<close>

definition in_window :: "instant \<Rightarrow> instant \<Rightarrow> row \<Rightarrow> bool" where
  "in_window lo hi r = (case timestamp r of None \<Rightarrow> False | Some t \<Rightarrow> lo \<le> t \<and> t \<le> hi)"

definition window_filter :: "instant \<Rightarrow> instant \<Rightarrow> row list \<Rightarrow> row list" where
  "window_filter lo hi df = filter (in_window lo hi) df"

text \<open>
  \<^verbatim>\<open>drop_duplicates(subset=["station_id", "timestamp"])\<close>: the default \<open>keep="first"\<close>
  keeps a row when no earlier row has the same pair.
\<close>

definition dup_key :: "row \<Rightarrow> string \<times> instant option" where
  "dup_key r = (station_id r, timestamp r)"

fun drop_duplicates_from :: "(string \<times> instant option) list \<Rightarrow> row list \<Rightarrow> row list" where
  "drop_duplicates_from seen [] = []"
| "drop_duplicates_from seen (r # rs) =
     (if dup_key r \<in> set seen then drop_duplicates_from seen rs
      else r # drop_duplicates_from (dup_key r # seen) rs)"

definition drop_duplicates :: "row list \<Rightarrow> row list" where
  "drop_duplicates df = drop_duplicates_from [] df"

text \<open>
  \<^verbatim>\<open>sort_values(["station_id", "timestamp"])\<close>: ascending, lexicographic on the two
  columns, stable, \<open>NaT\<close> last within a station (\<open>na_position="last"\<close>).
\<close>

definition sort_rank :: "row \<Rightarrow> string \<times> bool \<times> instant" where
  "sort_rank r = (station_id r, (case timestamp r of None \<Rightarrow> (True, 0) | Some t \<Rightarrow> (False, t)))"

definition sort_values :: "row list \<Rightarrow> row list" where
  "sort_values df = sort_key sort_rank df"

text \<open>The three operations in the order every fetcher applies them.\<close>

definition window_dedupe_sort :: "instant \<Rightarrow> instant \<Rightarrow> row list \<Rightarrow> row list" where
  "window_dedupe_sort lo hi df = sort_values (drop_duplicates (window_filter lo hi df))"

text \<open>Exceptions that the modelled code can raise.\<close>

datatype exn = TypeError | JSONDecodeError | ValueError | OverflowError

text \<open>
  What the code does besides computing its result, in the order it does it: an HTTP
  request for one chunk of one station, a \<open>time.sleep\<close>, a warning or an error written to
  the log (informational messages are left out).
\<close>

datatype chunk = Day date | Year int | Realtime | Whole_window

datatype level = WARNING | ERROR

datatype event = Request string chunk | Sleep real | Log level

text \<open>
  The outcome of \<open>requests.get\<close>: no response at all (a connection error or a timeout),
  or a status code with a body. \<open>raise_for_status\<close> raises on the codes 400 to 599.
\<close>

datatype 'a response = NetworkError | Http nat 'a

definition raises_for_status :: "nat \<Rightarrow> bool" where
  "raises_for_status status = (400 \<le> status \<and> status < 600)"

section \<open>The final step of each fetcher\<close>

text \<open>
  The bound that \<open>fetch_ndbc_year\<close>, \<open>fetch_ndbc_realtime\<close>, \<open>fetch_asos_for_station\<close>,
  \<open>fetch_airport_data\<close> and \<open>fetch_pws_data\<close> compute:
  \<^verbatim>\<open>pd.Timestamp(END_DATE) + pd.Timedelta(days=1) - pd.Timedelta(microseconds=1)\<close>.
\<close>

definition end_of_day :: "date \<Rightarrow> instant" where
  "end_of_day d = Timestamp d + Timedelta_days 1 - Timedelta_microseconds 1"

text \<open>
  \<open>fetch_buoy_data\<close> (fetch_buoy_data.py), the filter, \<open>drop_duplicates\<close> and \<open>sort_values\<close>
  on \<open>df_all\<close>. The frames of this fetcher hold naive timestamps and both bounds are
  naive; the upper bound is \<open>pd.to_datetime(END_DATE)\<close>, midnight at the start of the last
  day.
\<close>

definition fetch_buoy_data_step :: "date \<Rightarrow> date \<Rightarrow> row list \<Rightarrow> row list" where
  "fetch_buoy_data_step START_DATE END_DATE df_all =
     window_dedupe_sort (Timestamp START_DATE) (Timestamp END_DATE) df_all"

text \<open>\<open>fetch_buoy_data\<close> from \<open>if not all_frames\<close> on.\<close>

definition fetch_buoy_data_final :: "date \<Rightarrow> date \<Rightarrow> row list list \<Rightarrow> row list" where
  "fetch_buoy_data_final START_DATE END_DATE all_frames =
     (if all_frames = [] then []
      else fetch_buoy_data_step START_DATE END_DATE (concat all_frames))"

text \<open>
  \<open>fetch_airport_data\<close> (fetch_airport_mesonet_data.py). The frames of this fetcher hold
  UTC timestamps and both bounds are localized to UTC.
\<close>

definition fetch_airport_data_step :: "date \<Rightarrow> date \<Rightarrow> row list \<Rightarrow> row list" where
  "fetch_airport_data_step START_DATE END_DATE df_all =
     window_dedupe_sort (Timestamp START_DATE) (end_of_day END_DATE) df_all"

definition fetch_airport_data_final :: "date \<Rightarrow> date \<Rightarrow> row list list \<Rightarrow> row list" where
  "fetch_airport_data_final START_DATE END_DATE all_frames =
     (if all_frames = [] then []
      else fetch_airport_data_step START_DATE END_DATE (concat all_frames))"

text \<open>
  The PWS frames hold aware timestamps when they were parsed from \<open>obsTimeUtc\<close> and naive
  ones otherwise, so the timestamp column of a concatenation is naive
  (\<open>datetime64[ns]\<close>), aware (\<open>datetime64[ns, UTC]\<close>) or, when both kinds of frames went
  into it, an \<open>object\<close> column of single values.
\<close>

datatype tz_kind = Naive | Aware | Mixed

definition column_tz :: "row list \<Rightarrow> tz_kind" where
  "column_tz df =
     (if list_all (\<lambda>r. \<not> tz_aware r) df then Naive
      else if list_all tz_aware df then Aware else Mixed)"

text \<open>
  Comparing the timestamp column with a naive bound: a naive column compares; an aware
  column raises \<open>TypeError\<close>; an \<open>object\<close> column is compared value by value, where an aware
  timestamp raises \<open>TypeError\<close> and \<open>NaT\<close> does not.
\<close>

definition aware_value :: "row \<Rightarrow> bool" where
  "aware_value r = (tz_aware r \<and> timestamp r \<noteq> None)"

definition naive_compare_raises :: "row list \<Rightarrow> bool" where
  "naive_compare_raises df =
     (case column_tz df of
        Naive \<Rightarrow> False
      | Aware \<Rightarrow> True
      | Mixed \<Rightarrow> list_ex aware_value df)"

text \<open>\<open>fetch_pws_data\<close> (fetch_pws_all_data.py). Both bounds are naive.\<close>

definition fetch_pws_data_step :: "date \<Rightarrow> date \<Rightarrow> row list \<Rightarrow> exn + row list" where
  "fetch_pws_data_step START_DATE END_DATE df_all =
     (if naive_compare_raises df_all then Inl TypeError
      else Inr (window_dedupe_sort (Timestamp START_DATE) (end_of_day END_DATE) df_all))"

definition fetch_pws_data_final :: "date \<Rightarrow> date \<Rightarrow> row list list \<Rightarrow> exn + row list" where
  "fetch_pws_data_final START_DATE END_DATE all_frames =
     (if all_frames = [] then Inr []
      else fetch_pws_data_step START_DATE END_DATE (concat all_frames))"

text \<open>
  \<open>build_combined_pws_observations\<close> (build_pws_observations.py). \<open>station_windows\<close> is
  the dictionary of per-station start dates in insertion order; the lower bound is
  \<^verbatim>\<open>min(station_windows.values())\<close> for every row. The test
  \<^verbatim>\<open>getattr(df_all["timestamp"].dtype, "tz", None) is None\<close> holds for a naive and for
  an \<open>object\<close> column: they are compared with the naive bounds, the upper one being
  midnight after the last day, inclusive. An aware column is compared with the UTC
  bounds, the upper one a microsecond earlier.
\<close>

definition min_start :: "(string \<times> date) list \<Rightarrow> date" where
  "min_start station_windows = Min (set (map snd station_windows))"

definition build_combined_step ::
  "(string \<times> date) list \<Rightarrow> date \<Rightarrow> row list \<Rightarrow> exn + row list" where
  "build_combined_step station_windows end_date df_all =
     (if column_tz df_all = Aware then
        Inr (window_dedupe_sort (Timestamp (min_start station_windows)) (end_of_day end_date)
               df_all)
      else if naive_compare_raises df_all then Inl TypeError
      else
        Inr (window_dedupe_sort (Timestamp (min_start station_windows))
               (Timestamp end_date + Timedelta_days 1) df_all))"

definition build_combined_final ::
  "(string \<times> date) list \<Rightarrow> date \<Rightarrow> row list list \<Rightarrow> exn + row list" where
  "build_combined_final station_windows end_date all_frames =
     (if all_frames = [] then Inr []
      else build_combined_step station_windows end_date (concat all_frames))"

section \<open>The calendar\<close>

text \<open>
  The proleptic Gregorian calendar as \<open>datetime\<close> and pandas use it. \<open>ordinal y m d\<close> is the
  day number of the civil date \<open>y-m-d\<close>, counted from 1970-01-01.
\<close>

definition is_leap :: "int \<Rightarrow> bool" where
  "is_leap y = (if y mod 400 = 0 then True else if y mod 100 = 0 then False else y mod 4 = 0)"

definition days_in_month :: "int \<Rightarrow> int \<Rightarrow> int" where
  "days_in_month y m =
     (if m = 2 then (if is_leap y then 29 else 28)
      else if m = 4 \<or> m = 6 \<or> m = 9 \<or> m = 11 then 30 else 31)"

definition days_before_year :: "int \<Rightarrow> int" where
  "days_before_year y =
     365 * (y - 1970) + ((y - 1) div 4 - (y - 1) div 100 + (y - 1) div 400) - 477"

definition days_before_month :: "int \<Rightarrow> int \<Rightarrow> int" where
  "days_before_month y m =
     [0, 31, 59, 90, 120, 151, 181, 212, 243, 273, 304, 334] ! nat (m - 1)
       + (if 2 < m \<and> is_leap y then 1 else 0)"

definition ordinal :: "int \<Rightarrow> int \<Rightarrow> int \<Rightarrow> date" where
  "ordinal y m d = days_before_year y + days_before_month y m + (d - 1)"


text \<open>The instant of a civil date and a time of day.\<close>

definition civil_instant :: "int \<Rightarrow> int \<Rightarrow> int \<Rightarrow> int \<Rightarrow> int \<Rightarrow> instant" where
  "civil_instant y m d h mi =
     Timestamp (ordinal y m d) + h * 3600000000000 + mi * 60000000000"

text \<open>
  \<^verbatim>\<open>pd.to_datetime(frame, errors="coerce")\<close> on a frame with the columns year, month, day,
  hour and minute is a function of pandas, not of this repository: in the fetchers below
  it is the parameter \<open>to_datetime_units\<close>, which gives for the five cells of one record
  the timestamp, \<open>NaT\<close>, or the exception that the call raises. Python's \<open>int\<close> on a text,
  which \<open>astype(int)\<close> applies, is the parameter \<open>int_of_text\<close>; it gives \<open>None\<close> when \<open>int\<close>
  raises \<open>ValueError\<close>.

  To run the fetchers on concrete records, \<open>calendar_to_datetime\<close> is such a function on
  records whose five cells are integers that form a date of the years 1 to 9999 and a time
  of day: it gives the instant of that date and time. With \<open>ns\<close>, timestamps have
  nanosecond resolution as in pandas 1 and 2: a date outside the range of \<open>Timestamp\<close> is
  \<open>NaT\<close>, and a sum that leaves the range raises \<open>OverflowError\<close>. On all other records it
  gives \<open>NaT\<close>, which is not meant to follow pandas.
\<close>

definition in_bounds :: "instant \<Rightarrow> bool" where
  "in_bounds t = (- 9223372036854775807 \<le> t \<and> t \<le> 9223372036854775807)"

definition unit_value :: "cell \<Rightarrow> int option" where
  "unit_value c = (case c of Num i \<Rightarrow> Some i | Str s \<Rightarrow> None | NaN \<Rightarrow> None)"

definition date_and_time :: "int \<Rightarrow> int \<Rightarrow> int \<Rightarrow> int \<Rightarrow> int \<Rightarrow> bool" where
  "date_and_time y m d h mi =
     (1 \<le> m \<and> m \<le> 12 \<and> 1 \<le> d \<and> d \<le> days_in_month y m
      \<and> 0 \<le> h \<and> h < 24 \<and> 0 \<le> mi \<and> mi < 60)"

definition calendar_to_datetime ::
  "bool \<Rightarrow> cell \<Rightarrow> cell \<Rightarrow> cell \<Rightarrow> cell \<Rightarrow> cell \<Rightarrow> exn + instant option" where
  "calendar_to_datetime ns year month day hour minute =
     (case unit_value year of None \<Rightarrow> Inr None | Some y \<Rightarrow>
      case unit_value month of None \<Rightarrow> Inr None | Some m \<Rightarrow>
      case unit_value day of None \<Rightarrow> Inr None | Some d \<Rightarrow>
      case unit_value hour of None \<Rightarrow> Inr None | Some h \<Rightarrow>
      case unit_value minute of None \<Rightarrow> Inr None | Some mi \<Rightarrow>
        if 1 \<le> y \<and> y \<le> 9999 \<and> date_and_time y m d h mi then
          (if ns then
             (if in_bounds (Timestamp (ordinal y m d)) then
                (if in_bounds (civil_instant y m d h mi)
                 then Inr (Some (civil_instant y m d h mi))
                 else Inl OverflowError)
              else Inr None)
           else Inr (Some (civil_instant y m d h mi)))
        else Inr None)"

section \<open>The buoy fetcher (fetch_buoy_data.py)\<close>

definition canonical_cols :: "string list" where
  "canonical_cols =
     [''YY'', ''MM'', ''DD'', ''hh'', ''mm'', ''WDIR'', ''WSPD'', ''GST'', ''WVHT'', ''DPD'',
      ''APD'', ''MWD'', ''PRES'', ''ATMP'', ''WTMP'', ''DEWP'', ''VIS'', ''TIDE'']"

definition time_cols :: "string list" where
  "time_cols = [''YY'', ''MM'', ''DD'', ''hh'', ''mm'']"

definition has_time_cols :: "string list \<Rightarrow> bool" where
  "has_time_cols cols = list_all (\<lambda>c. c \<in> set cols) time_cols"

text \<open>The first exception of an operation on a column wins; otherwise every record has a value.\<close>

fun all_or_raise :: "(exn + 'a) list \<Rightarrow> exn + 'a list" where
  "all_or_raise [] = Inr []"
| "all_or_raise (Inl e # xs) = Inl e"
| "all_or_raise (Inr x # xs) =
     (case all_or_raise xs of Inl e \<Rightarrow> Inl e | Inr ys \<Rightarrow> Inr (x # ys))"

text \<open>
  \<open>fetch_ndbc_year\<close>, the timestamp of one record: whatever is in \<open>YY\<close> is handed to
  \<open>pd.to_datetime\<close> as the year.
\<close>

definition ndbc_year_timestamp ::
  "(cell \<Rightarrow> cell \<Rightarrow> cell \<Rightarrow> cell \<Rightarrow> cell \<Rightarrow> exn + instant option) \<Rightarrow> (string \<times> cell) list
   \<Rightarrow> exn + instant option" where
  "ndbc_year_timestamp to_datetime_units r =
     to_datetime_units (cell_at r ''YY'') (cell_at r ''MM'') (cell_at r ''DD'')
       (cell_at r ''hh'') (cell_at r ''mm'')"

text \<open>
  \<open>fetch_ndbc_year\<close> from the table that \<open>read_csv\<close> returns (a rectangular table of the
  data lines, no header): the columns are cut to the canonical names, the timestamp is
  built, the station is attached and the file is filtered to the window.
\<close>

definition fetch_ndbc_year_table ::
  "(cell \<Rightarrow> cell \<Rightarrow> cell \<Rightarrow> cell \<Rightarrow> cell \<Rightarrow> exn + instant option) \<Rightarrow> date \<Rightarrow> date \<Rightarrow> string
   \<Rightarrow> cell list list \<Rightarrow> event list \<times> (exn + row list)" where
  "fetch_ndbc_year_table to_datetime_units START_DATE END_DATE station data =
     (case data of
        [] \<Rightarrow> ([Log WARNING], Inr [])
      | first # rest \<Rightarrow>
          (let n = min (length first) (length canonical_cols);
               cols = take n canonical_cols
           in if has_time_cols cols then
                (case all_or_raise (map (\<lambda>cells.
                         case ndbc_year_timestamp to_datetime_units (zip cols cells) of
                           Inl e \<Rightarrow> Inl e
                         | Inr ts \<Rightarrow>
                             Inr \<lparr>station_id = station, timestamp = ts,
                                  measurements = zip cols cells, tz_aware = False\<rparr>) data) of
                   Inl e \<Rightarrow> ([], Inl e)
                 | Inr df \<Rightarrow>
                     ([], Inr (window_filter (Timestamp START_DATE) (end_of_day END_DATE) df)))
              else
                ([Log WARNING],
                 Inr (window_filter (Timestamp START_DATE) (end_of_day END_DATE)
                        (map (\<lambda>cells. \<lparr>station_id = station, timestamp = None,
                                         measurements = zip cols cells, tz_aware = False\<rparr>)
                           data)))))"

text \<open>The body of a yearly archive: bytes that do not gunzip, or the table of its data lines.\<close>

datatype ndbc_archive = BadGzip | Archive "cell list list"

definition fetch_ndbc_year ::
  "(cell \<Rightarrow> cell \<Rightarrow> cell \<Rightarrow> cell \<Rightarrow> cell \<Rightarrow> exn + instant option) \<Rightarrow> date \<Rightarrow> date \<Rightarrow> string
   \<Rightarrow> int \<Rightarrow> ndbc_archive response \<Rightarrow> event list \<times> (exn + row list)" where
  "fetch_ndbc_year to_datetime_units START_DATE END_DATE station year resp =
     (case resp of
        NetworkError \<Rightarrow> ([Request station (Year year), Log ERROR], Inr [])
      | Http status body \<Rightarrow>
          if raises_for_status status
          then ([Request station (Year year), Log (if status = 404 then WARNING else ERROR)],
                Inr [])
          else (case body of
                  BadGzip \<Rightarrow> ([Request station (Year year), Log ERROR], Inr [])
                | Archive data \<Rightarrow>
                    (Request station (Year year)
                       # fst (fetch_ndbc_year_table to_datetime_units START_DATE END_DATE
                                station data),
                     snd (fetch_ndbc_year_table to_datetime_units START_DATE END_DATE
                            station data))))"

text \<open>
  \<open>fetch_ndbc_realtime\<close>, the loop that renames repeated header names. \<open>seen\<close> is the
  dictionary of the loop.
\<close>

fun dedupe_loop :: "(string \<rightharpoonup> nat) \<Rightarrow> string list \<Rightarrow> string list" where
  "dedupe_loop seen [] = []"
| "dedupe_loop seen (name # rest) =
     (case seen name of
        Some k \<Rightarrow> (name @ ''_'' @ str_nat (k + 1)) # dedupe_loop (seen(name \<mapsto> k + 1)) rest
      | None \<Rightarrow> name # dedupe_loop (seen(name \<mapsto> 0)) rest)"

definition dedupe_col_names :: "string list \<Rightarrow> string list" where
  "dedupe_col_names raw_col_names = dedupe_loop Map.empty raw_col_names"

text \<open>
  For the proofs: the dictionary \<open>seen\<close> when \<open>c name\<close> occurrences of every name have been
  read.
\<close>

definition seen_of :: "(string \<Rightarrow> nat) \<Rightarrow> (string \<rightharpoonup> nat)" where
  "seen_of c = (\<lambda>name. if c name = 0 then None else Some (c name - 1))"

text \<open>
  \<open>fetch_ndbc_realtime\<close>, the year of one record:
  \<^verbatim>\<open>df["YYYY"] = 2000 + df["YY"].astype(int)\<close>, whatever \<open>YY\<close> holds; \<open>astype(int)\<close> raises
  \<open>ValueError\<close> on a missing value and on a text that \<open>int\<close> does not read.
\<close>

definition ndbc_realtime_year :: "(string \<Rightarrow> int option) \<Rightarrow> (string \<times> cell) list \<Rightarrow> exn + int" where
  "ndbc_realtime_year int_of_text r =
     (case cell_at r ''YY'' of
        Num yy \<Rightarrow> Inr (2000 + yy)
      | Str s \<Rightarrow> (case int_of_text s of None \<Rightarrow> Inl ValueError | Some yy \<Rightarrow> Inr (2000 + yy))
      | NaN \<Rightarrow> Inl ValueError)"

text \<open>The timestamp of one record: the new column \<open>YYYY\<close> is the year.\<close>

definition ndbc_realtime_timestamp ::
  "(cell \<Rightarrow> cell \<Rightarrow> cell \<Rightarrow> cell \<Rightarrow> cell \<Rightarrow> exn + instant option) \<Rightarrow> int \<Rightarrow> (string \<times> cell) list
   \<Rightarrow> exn + instant option" where
  "ndbc_realtime_timestamp to_datetime_units yyyy r =
     to_datetime_units (Num yyyy) (cell_at r ''MM'') (cell_at r ''DD'')
       (cell_at r ''hh'') (cell_at r ''mm'')"

text \<open>
  \<open>fetch_ndbc_realtime\<close> from the header names and the table of the records under them.
  \<^verbatim>\<open>pd.read_csv(..., names=col_names)\<close> raises \<open>ValueError\<close> when a name is still
  repeated. The column \<open>YYYY\<close> is computed for all records before the timestamps are.
\<close>

definition fetch_ndbc_realtime_table ::
  "(cell \<Rightarrow> cell \<Rightarrow> cell \<Rightarrow> cell \<Rightarrow> cell \<Rightarrow> exn + instant option) \<Rightarrow> (string \<Rightarrow> int option)
   \<Rightarrow> date \<Rightarrow> date \<Rightarrow> string \<Rightarrow> string list \<Rightarrow> cell list list
   \<Rightarrow> event list \<times> (exn + row list)" where
  "fetch_ndbc_realtime_table to_datetime_units int_of_text START_DATE END_DATE station
       raw_col_names records =
     (let col_names = dedupe_col_names raw_col_names in
      if records = [] then ([Log WARNING], Inr [])
      else if \<not> distinct col_names then ([], Inl ValueError)
      else if has_time_cols col_names then
        (case all_or_raise
                (map (\<lambda>cells. ndbc_realtime_year int_of_text (zip col_names cells)) records) of
           Inl e \<Rightarrow> ([], Inl e)
         | Inr years \<Rightarrow>
             (case all_or_raise (map (\<lambda>(yyyy, cells).
                      case ndbc_realtime_timestamp to_datetime_units yyyy (zip col_names cells) of
                        Inl e \<Rightarrow> Inl e
                      | Inr ts \<Rightarrow>
                          Inr \<lparr>station_id = station, timestamp = ts,
                               measurements = set_column ''YYYY'' (Num yyyy) (zip col_names cells),
                               tz_aware = False\<rparr>) (zip years records)) of
                Inl e \<Rightarrow> ([], Inl e)
              | Inr df \<Rightarrow>
                  ([], Inr (window_filter (Timestamp START_DATE) (end_of_day END_DATE) df))))
      else
        ([Log WARNING],
         Inr (window_filter (Timestamp START_DATE) (end_of_day END_DATE)
                (map (\<lambda>cells. \<lparr>station_id = station, timestamp = None,
                                 measurements = zip col_names cells, tz_aware = False\<rparr>)
                   records))))"

text \<open>
  The body of the realtime feed: the names on its first line that is not a comment, if
  there is one, and the table of the lines after it.
\<close>

datatype ndbc_feed = Feed "string list option" "cell list list"

definition fetch_ndbc_realtime ::
  "(cell \<Rightarrow> cell \<Rightarrow> cell \<Rightarrow> cell \<Rightarrow> cell \<Rightarrow> exn + instant option) \<Rightarrow> (string \<Rightarrow> int option)
   \<Rightarrow> date \<Rightarrow> date \<Rightarrow> string \<Rightarrow> ndbc_feed response \<Rightarrow> event list \<times> (exn + row list)" where
  "fetch_ndbc_realtime to_datetime_units int_of_text START_DATE END_DATE station resp =
     (case resp of
        NetworkError \<Rightarrow> ([Request station Realtime, Log ERROR], Inr [])
      | Http status body \<Rightarrow>
          if raises_for_status status
          then ([Request station Realtime, Log (if status = 404 then WARNING else ERROR)], Inr [])
          else (case body of
                  Feed None records \<Rightarrow> ([Request station Realtime, Log WARNING], Inr [])
                | Feed (Some raw_col_names) records \<Rightarrow>
                    (Request station Realtime
                       # fst (fetch_ndbc_realtime_table to_datetime_units int_of_text
                                START_DATE END_DATE station raw_col_names records),
                     snd (fetch_ndbc_realtime_table to_datetime_units int_of_text
                            START_DATE END_DATE station raw_col_names records))))"

text \<open>
  \<open>fetch_buoy_data\<close>: for every station, one request per historical year, in order, then
  the realtime feed; the frames that are not empty are collected. The two providers
  answer a request for a station and a year, and for a station's feed. The window is
  given by its civil dates, \<open>hist_years\<close> being \<open>range(START_DATE.year, END_DATE.year)\<close>.
  An exception leaves the loops.
\<close>

fun fetch_buoy_years ::
  "(cell \<Rightarrow> cell \<Rightarrow> cell \<Rightarrow> cell \<Rightarrow> cell \<Rightarrow> exn + instant option) \<Rightarrow> date \<Rightarrow> date
   \<Rightarrow> (string \<Rightarrow> int \<Rightarrow> ndbc_archive response) \<Rightarrow> string \<Rightarrow> int list
   \<Rightarrow> event list \<times> (exn + row list list)" where
  "fetch_buoy_years td S E archive station [] = ([], Inr [])"
| "fetch_buoy_years td S E archive station (year # years) =
     (case fetch_ndbc_year td S E station year (archive station year) of
        (ev, Inl e) \<Rightarrow> (ev, Inl e)
      | (ev, Inr df_year) \<Rightarrow>
          (case fetch_buoy_years td S E archive station years of
             (evs, Inl e) \<Rightarrow> (ev @ evs, Inl e)
           | (evs, Inr frames) \<Rightarrow>
               (ev @ evs, Inr ((if df_year = [] then [] else [df_year]) @ frames))))"

fun fetch_buoy_stations ::
  "(cell \<Rightarrow> cell \<Rightarrow> cell \<Rightarrow> cell \<Rightarrow> cell \<Rightarrow> exn + instant option) \<Rightarrow> (string \<Rightarrow> int option)
   \<Rightarrow> date \<Rightarrow> date \<Rightarrow> (string \<Rightarrow> int \<Rightarrow> ndbc_archive response) \<Rightarrow> (string \<Rightarrow> ndbc_feed response)
   \<Rightarrow> int list \<Rightarrow> string list \<Rightarrow> event list \<times> (exn + row list list)" where
  "fetch_buoy_stations td iot S E archive feed years [] = ([], Inr [])"
| "fetch_buoy_stations td iot S E archive feed years (station # stations) =
     (case fetch_buoy_years td S E archive station years of
        (ev_years, Inl e) \<Rightarrow> (ev_years, Inl e)
      | (ev_years, Inr frames_years) \<Rightarrow>
          (case fetch_ndbc_realtime td iot S E station (feed station) of
             (ev_rt, Inl e) \<Rightarrow> (ev_years @ ev_rt, Inl e)
           | (ev_rt, Inr df_rt) \<Rightarrow>
               (case fetch_buoy_stations td iot S E archive feed years stations of
                  (evs, Inl e) \<Rightarrow> (ev_years @ ev_rt @ evs, Inl e)
                | (evs, Inr frames) \<Rightarrow>
                    (ev_years @ ev_rt @ evs,
                     Inr (frames_years @ (if df_rt = [] then [] else [df_rt]) @ frames)))))"

definition BUOY_STATIONS :: "string list" where
  "BUOY_STATIONS = [''46050'', ''46029'', ''46041'', ''46087'', ''46047'', ''51001'']"

definition fetch_buoy_data ::
  "(cell \<Rightarrow> cell \<Rightarrow> cell \<Rightarrow> cell \<Rightarrow> cell \<Rightarrow> exn + instant option) \<Rightarrow> (string \<Rightarrow> int option)
   \<Rightarrow> int \<times> int \<times> int \<Rightarrow> int \<times> int \<times> int \<Rightarrow> (string \<Rightarrow> int \<Rightarrow> ndbc_archive response)
   \<Rightarrow> (string \<Rightarrow> ndbc_feed response) \<Rightarrow> event list \<times> (exn + row list)" where
  "fetch_buoy_data to_datetime_units int_of_text START_DATE END_DATE archive feed =
     (case (START_DATE, END_DATE) of ((sy, sm, sd), (ey, em, ed)) \<Rightarrow>
        (case fetch_buoy_stations to_datetime_units int_of_text (ordinal sy sm sd)
                (ordinal ey em ed) archive feed [sy..ey - 1] BUOY_STATIONS of
           (ev, Inl e) \<Rightarrow> (ev, Inl e)
         | (ev, Inr all_frames) \<Rightarrow>
             (ev @ (if all_frames = [] then [Log WARNING] else []),
              Inr (fetch_buoy_data_final (ordinal sy sm sd) (ordinal ey em ed) all_frames))))"

section \<open>Station directories\<close>

text \<open>
  A station's metadata is a dictionary from field names to text, \<open>None\<close> standing for a
  null. A call of a Python function is modelled with the list of its positional
  arguments: a call with another number of arguments than the \<open>def\<close> has parameters raises
  \<open>TypeError\<close>.
\<close>

type_synonym info = "(string \<times> string option) list"

definition station_entry :: "string \<Rightarrow> string \<Rightarrow> string \<Rightarrow> string \<Rightarrow> string \<Rightarrow> string \<times> info" where
  "station_entry sid name source_type provider region =
     (sid, [(''station_id'', Some sid), (''name'', Some name), (''source_type'', Some source_type),
            (''provider'', Some provider), (''region'', Some region)])"

text \<open>\<open>STATION_REGISTRY\<close> of stations_registry.py.\<close>

definition STATION_REGISTRY :: "(string \<times> (string \<times> info) list) list" where
  "STATION_REGISTRY =
     [(''buoy'',
       [station_entry ''46050'' ''Stonewall Banks, OR'' ''buoy'' ''NDBC'' ''Oregon Coast'',
        station_entry ''46029'' ''Columbia River Bar, OR/WA'' ''buoy'' ''NDBC''
          ''Oregon/Washington Coast'',
        station_entry ''46041'' ''Cape Elizabeth, OR'' ''buoy'' ''NDBC'' ''Oregon Coast'',
        station_entry ''46087'' ''Tillamook, OR'' ''buoy'' ''NDBC'' ''Oregon Coast'',
        station_entry ''46047'' ''Neah Bay, WA'' ''buoy'' ''NDBC'' ''Washington Coast'',
        station_entry ''51001'' ''Northwest Hawaii'' ''buoy'' ''NDBC'' ''Hawaii'']),
      (''airport'',
       [station_entry ''KEUG'' ''Eugene Airport'' ''airport'' ''Mesonet ASOS'' ''Willamette Valley'',
        station_entry ''KSLE'' ''Salem Airport'' ''airport'' ''Mesonet ASOS'' ''Willamette Valley'',
        station_entry ''KMMV'' ''McMinnville Airport'' ''airport'' ''Mesonet ASOS''
          ''Willamette Valley'',
        station_entry ''KONP'' ''Newport Airport'' ''airport'' ''Mesonet ASOS'' ''Oregon Coast'']),
      (''pws'',
       [station_entry ''KORMCMIN133'' ''propdada'' ''pws'' ''Weather Underground'' ''McMinnville'',
        station_entry ''KORMCMIN127'' ''dustprop'' ''pws'' ''Weather Underground''
          ''McMinnville''])]"

text \<open>
  \<open>get_station_info(source_type, station_id)\<close> of stations_registry.py:
  \<^verbatim>\<open>STATION_REGISTRY.get(source_type, {}).get(station_id)\<close>.
\<close>

definition registry_get_station_info :: "string list \<Rightarrow> exn + info option" where
  "registry_get_station_info args =
     (case args of
        [source_type, station] \<Rightarrow>
          Inr (case map_of STATION_REGISTRY source_type of
                 None \<Rightarrow> None
               | Some stations \<Rightarrow> map_of stations station)
      | _ \<Rightarrow> Inl TypeError)"

text \<open>
  \<open>get_station_info(station_id)\<close> of services/stations_service_pg.py:
  \<^verbatim>\<open>SELECT * FROM stations WHERE station_id = %s LIMIT 1\<close> on the rows of the table
  \<open>stations\<close>, each row a dictionary of its columns.
\<close>

definition pg_get_station_info :: "info list \<Rightarrow> string list \<Rightarrow> exn + info option" where
  "pg_get_station_info stations args =
     (case args of
        [station] \<Rightarrow>
          Inr (find (\<lambda>row. map_of row ''station_id'' = Some (Some station)) stations)
      | _ \<Rightarrow> Inl TypeError)"

text \<open>
  \<open>get_airport_name\<close> of fetch_airport_mesonet_data.py, over the \<open>get_station_info\<close> it
  imports: the station's \<open>name\<close>, or the identifier when there is no record or no name.
\<close>

definition get_airport_name :: "(string list \<Rightarrow> exn + info option) \<Rightarrow> string \<Rightarrow> exn + string" where
  "get_airport_name get_station_info station =
     (case get_station_info [''airport'', station] of
        Inl e \<Rightarrow> Inl e
      | Inr None \<Rightarrow> Inr station
      | Inr (Some info) \<Rightarrow>
          (if info = [] then Inr station
           else (case map_of info ''name'' of
                   Some (Some name) \<Rightarrow> Inr (if name = [] then station else name)
                 | Some None \<Rightarrow> Inr station
                 | None \<Rightarrow> Inr station)))"

section \<open>The airport fetcher (fetch_airport_mesonet_data.py)\<close>

text \<open>
  \<open>fetch_asos_for_station\<close> from the frame that \<open>read_csv\<close> returns (its column names and
  its records). \<open>to_datetime_utc\<close> is \<^verbatim>\<open>pd.to_datetime(_, errors="coerce", utc=True)\<close> on
  one cell. Without a \<open>valid\<close> column the timestamp column is a naive \<open>NaT\<close> column, and
  comparing it with the UTC bounds raises \<open>TypeError\<close>.
\<close>

definition asos_frame ::
  "(cell \<Rightarrow> instant option) \<Rightarrow> date \<Rightarrow> date \<Rightarrow> string \<Rightarrow> string \<Rightarrow> string list \<Rightarrow> cell list list
   \<Rightarrow> event list \<times> (exn + row list)" where
  "asos_frame to_datetime_utc START_DATE END_DATE station station_name cols records =
     (if records = [] then ([Log WARNING], Inr [])
      else if ''valid'' \<in> set cols then
        (let df = window_filter (Timestamp START_DATE) (end_of_day END_DATE)
                    (map (\<lambda>cells.
                       \<lparr>station_id = (if ''station'' \<in> set cols
                                       then astype_str (cell_at (zip cols cells) ''station'')
                                       else station),
                        timestamp = to_datetime_utc (cell_at (zip cols cells) ''valid''),
                        measurements = set_column ''station_name'' (Str station_name)
                                         (zip cols cells),
                        tz_aware = True\<rparr>)
                       records)
         in ((if df = [] then [Log WARNING] else []), Inr df))
      else ([Log WARNING], Inl TypeError))"

text \<open>The body of a Mesonet response: blank text, text that is no CSV, or a frame.\<close>

datatype asos_body = Blank | BadCsv | Csv "string list" "cell list list"

definition fetch_asos_for_station ::
  "(string list \<Rightarrow> exn + info option) \<Rightarrow> (cell \<Rightarrow> instant option) \<Rightarrow> date \<Rightarrow> date \<Rightarrow> string
   \<Rightarrow> asos_body response \<Rightarrow> event list \<times> (exn + row list)" where
  "fetch_asos_for_station get_station_info to_datetime_utc START_DATE END_DATE station resp =
     (case get_airport_name get_station_info station of
        Inl e \<Rightarrow> ([], Inl e)
      | Inr station_name \<Rightarrow>
          (case resp of
             NetworkError \<Rightarrow> ([Request station Whole_window, Log ERROR], Inr [])
           | Http status body \<Rightarrow>
               if raises_for_status status
               then ([Request station Whole_window, Log ERROR], Inr [])
               else (case body of
                       Blank \<Rightarrow> ([Request station Whole_window, Log WARNING], Inr [])
                     | BadCsv \<Rightarrow> ([Request station Whole_window, Log ERROR], Inr [])
                     | Csv cols records \<Rightarrow>
                         (Request station Whole_window
                            # fst (asos_frame to_datetime_utc START_DATE END_DATE station
                                     station_name cols records),
                          snd (asos_frame to_datetime_utc START_DATE END_DATE station
                                 station_name cols records)))))"

section \<open>The limited PWS fetcher (build_pws_observations.py)\<close>

text \<open>
  A flattened observation is the list of its keys and values; the columns of the frame
  that \<open>json_normalize\<close> builds are the keys in the order they first appear.
\<close>

type_synonym observation = "(string \<times> cell) list"

definition frame_columns :: "observation list \<Rightarrow> string list" where
  "frame_columns observations = rev (remdups (rev (concat (map (map fst) observations))))"

text \<open>
  The column the timestamp is parsed from: \<open>obsTimeUtc\<close>, else \<open>obsTimeLocal\<close>, else the
  first column whose lower-cased name contains \<open>time\<close>. The flag says whether it is parsed
  with \<open>utc=True\<close>.
\<close>

definition pws_time_column :: "string list \<Rightarrow> (bool \<times> string) option" where
  "pws_time_column cols =
     (if ''obsTimeUtc'' \<in> set cols then Some (True, ''obsTimeUtc'')
      else if ''obsTimeLocal'' \<in> set cols then Some (False, ''obsTimeLocal'')
      else (case find (\<lambda>c. contains ''time'' (map lower_char c)) cols of
              None \<Rightarrow> None
            | Some c \<Rightarrow> Some (False, c)))"

text \<open>
  \<open>sort_values("timestamp")\<close>: ascending, \<open>NaT\<close> last. The default kind is numpy's
  quicksort, which sorts up to 16 values by insertion and so keeps equal timestamps in
  their input order; what it returns for a longer column is the parameter \<open>quicksort\<close>.
\<close>

definition timestamp_rank :: "row \<Rightarrow> bool \<times> instant" where
  "timestamp_rank r = (case timestamp r of None \<Rightarrow> (True, 0) | Some t \<Rightarrow> (False, t))"

definition sort_values_timestamp :: "(row list \<Rightarrow> row list) \<Rightarrow> row list \<Rightarrow> row list" where
  "sort_values_timestamp quicksort df =
     (if length df \<le> 16 then sort_key timestamp_rank df else quicksort df)"

text \<open>
  The frame of one day. \<open>to_datetime utc c\<close> is \<^verbatim>\<open>pd.to_datetime(_, errors="coerce")\<close> on
  one cell, with \<open>utc=True\<close> when the flag is set; the timestamps are aware when they were
  parsed with \<open>utc=True\<close> and are taken to be naive otherwise.
\<close>

definition pws_frame ::
  "(bool \<Rightarrow> cell \<Rightarrow> instant option) \<Rightarrow> (row list \<Rightarrow> row list) \<Rightarrow> string \<Rightarrow> observation list
   \<Rightarrow> row list" where
  "pws_frame to_datetime quicksort station observations =
     sort_values_timestamp quicksort
       (map (\<lambda>obs.
          (case pws_time_column (frame_columns observations) of
             None \<Rightarrow>
               \<lparr>station_id = station, timestamp = None, measurements = obs, tz_aware = False\<rparr>
           | Some (utc, c) \<Rightarrow>
               \<lparr>station_id = station, timestamp = to_datetime utc (cell_at obs c),
                measurements = obs, tz_aware = utc\<rparr>)) observations)"

text \<open>The body of a Weather Underground response: no JSON, or the list under \<open>observations\<close>.\<close>

datatype pws_body = NotJson | Observations "observation list"

text \<open>
  \<open>fetch_pws_day\<close>: the request and \<open>raise_for_status\<close> are inside the \<open>try\<close>;
  \<open>resp.json()\<close> comes after it.
\<close>

definition fetch_pws_day ::
  "(bool \<Rightarrow> cell \<Rightarrow> instant option) \<Rightarrow> (row list \<Rightarrow> row list) \<Rightarrow> string \<Rightarrow> date
   \<Rightarrow> pws_body response \<Rightarrow> event list \<times> (exn + row list)" where
  "fetch_pws_day to_datetime quicksort station day resp =
     (case resp of
        NetworkError \<Rightarrow> ([Request station (Day day), Log ERROR], Inr [])
      | Http status body \<Rightarrow>
          if raises_for_status status then ([Request station (Day day), Log ERROR], Inr [])
          else (case body of
                  NotJson \<Rightarrow> ([Request station (Day day)], Inl JSONDecodeError)
                | Observations observations \<Rightarrow>
                    if observations = [] then ([Request station (Day day), Log WARNING], Inr [])
                    else (Request station (Day day)
                            # (if pws_time_column (frame_columns observations) = None
                               then [Log WARNING] else []),
                          Inr (pws_frame to_datetime quicksort station observations))))"

text \<open>
  The \<open>while\<close> loop of \<open>fetch_pws_range\<close>: one day after the other, a sleep of
  \<open>REQUEST_SLEEP_SECONDS\<close> after each request, the frames that are not empty collected.
  \<open>provider\<close> answers the request for a station and a day. An exception of
  \<open>fetch_pws_day\<close> leaves the loop.
\<close>

function fetch_pws_days ::
  "(bool \<Rightarrow> cell \<Rightarrow> instant option) \<Rightarrow> (row list \<Rightarrow> row list) \<Rightarrow> real
   \<Rightarrow> (string \<Rightarrow> date \<Rightarrow> pws_body response) \<Rightarrow> string \<Rightarrow> date \<Rightarrow> date
   \<Rightarrow> event list \<times> (exn + row list list)" where
  "fetch_pws_days to_datetime quicksort REQUEST_SLEEP_SECONDS provider station current end_date =
     (if current \<le> end_date then
        (case fetch_pws_day to_datetime quicksort station current (provider station current) of
           (ev, Inl e) \<Rightarrow> (ev, Inl e)
         | (ev, Inr df_day) \<Rightarrow>
             (case fetch_pws_days to_datetime quicksort REQUEST_SLEEP_SECONDS provider station
                     (current + 1) end_date of
                (evs, Inl e) \<Rightarrow> (ev @ Sleep REQUEST_SLEEP_SECONDS # evs, Inl e)
              | (evs, Inr all_dfs) \<Rightarrow>
                  (ev @ Sleep REQUEST_SLEEP_SECONDS # evs,
                   Inr (if df_day = [] then all_dfs else df_day # all_dfs))))
      else ([], Inr []))"
  by pat_completeness auto
termination
  by (relation "measure (\<lambda>(to_datetime, quicksort, delay, provider, station, current, end_date).
        nat (end_date + 1 - current))") auto

declare fetch_pws_days.simps [simp del]

definition fetch_pws_range ::
  "(bool \<Rightarrow> cell \<Rightarrow> instant option) \<Rightarrow> (row list \<Rightarrow> row list) \<Rightarrow> real
   \<Rightarrow> (string \<Rightarrow> date \<Rightarrow> pws_body response) \<Rightarrow> string \<Rightarrow> date \<Rightarrow> date
   \<Rightarrow> event list \<times> (exn + row list)" where
  "fetch_pws_range to_datetime quicksort REQUEST_SLEEP_SECONDS provider station start_date
       end_date =
     (case fetch_pws_days to_datetime quicksort REQUEST_SLEEP_SECONDS provider station start_date
             end_date of
        (ev, Inl e) \<Rightarrow> (ev, Inl e)
      | (ev, Inr all_dfs) \<Rightarrow>
          if all_dfs = [] then (ev @ [Log WARNING], Inr []) else (ev, Inr (concat all_dfs)))"

text \<open>
  \<open>build_combined_pws_observations\<close>: the stations of \<open>station_windows\<close> in order, a
  station whose start date is after the end date skipped with a warning, then the final
  step.
\<close>

fun fetch_pws_stations ::
  "(bool \<Rightarrow> cell \<Rightarrow> instant option) \<Rightarrow> (row list \<Rightarrow> row list) \<Rightarrow> real
   \<Rightarrow> (string \<Rightarrow> date \<Rightarrow> pws_body response) \<Rightarrow> date \<Rightarrow> (string \<times> date) list
   \<Rightarrow> event list \<times> (exn + row list list)" where
  "fetch_pws_stations to_datetime quicksort delay provider end_date [] = ([], Inr [])"
| "fetch_pws_stations to_datetime quicksort delay provider end_date ((station, start_date) # rest) =
     (if start_date > end_date then
        (Log WARNING # fst (fetch_pws_stations to_datetime quicksort delay provider end_date rest),
         snd (fetch_pws_stations to_datetime quicksort delay provider end_date rest))
      else
        (case fetch_pws_range to_datetime quicksort delay provider station start_date end_date of
           (ev, Inl e) \<Rightarrow> (ev, Inl e)
         | (ev, Inr df_station) \<Rightarrow>
             (case fetch_pws_stations to_datetime quicksort delay provider end_date rest of
                (evs, Inl e) \<Rightarrow> (ev @ evs, Inl e)
              | (evs, Inr all_frames) \<Rightarrow>
                  (ev @ evs,
                   Inr (if df_station = [] then all_frames else df_station # all_frames)))))"

definition build_combined_pws_observations ::
  "(bool \<Rightarrow> cell \<Rightarrow> instant option) \<Rightarrow> (row list \<Rightarrow> row list) \<Rightarrow> real
   \<Rightarrow> (string \<Rightarrow> date \<Rightarrow> pws_body response) \<Rightarrow> (string \<times> date) list \<Rightarrow> date
   \<Rightarrow> event list \<times> (exn + row list)" where
  "build_combined_pws_observations to_datetime quicksort delay provider station_windows end_date =
     (case fetch_pws_stations to_datetime quicksort delay provider end_date station_windows of
        (ev, Inl e) \<Rightarrow> (ev, Inl e)
      | (ev, Inr all_frames) \<Rightarrow>
          (ev @ (if all_frames = [] then [Log WARNING] else []),
           build_combined_final station_windows end_date all_frames))"

text \<open>
  A checker for a trace: after a request, no other request comes before a sleep of at
  least \<open>d\<close> seconds. \<open>pending\<close> says that a request has been issued and not yet followed
  by such a sleep.
\<close>

fun delays_enforced :: "real \<Rightarrow> bool \<Rightarrow> event list \<Rightarrow> bool" where
  "delays_enforced d pending [] = True"
| "delays_enforced d pending (Request station c # es) =
     (if pending then False else delays_enforced d True es)"
| "delays_enforced d pending (Sleep x # es) =
     delays_enforced d (if d \<le> x then False else pending) es"
| "delays_enforced d pending (Log l # es) = delays_enforced d pending es"

text \<open>For the proofs: the value of \<open>pending\<close> at the end of a trace.\<close>

fun pending_after :: "real \<Rightarrow> bool \<Rightarrow> event list \<Rightarrow> bool" where
  "pending_after d pending [] = pending"
| "pending_after d pending (Request station c # es) = pending_after d True es"
| "pending_after d pending (Sleep x # es) =
     pending_after d (if d \<le> x then False else pending) es"
| "pending_after d pending (Log l # es) = pending_after d pending es"

section \<open>Properties of the shared final step\<close>

lemma set_drop_duplicates_from: "set (drop_duplicates_from seen df) \<subseteq> set df"
  by (induction df arbitrary: seen) auto

lemma keys_drop_duplicates_from:
  "dup_key ` set (drop_duplicates_from seen df) = dup_key ` set df - set seen"
  by (induction df arbitrary: seen) auto

lemma distinct_drop_duplicates_from:
  "distinct (map dup_key (drop_duplicates_from seen df))"
  by (induction df arbitrary: seen) (auto simp: keys_drop_duplicates_from)

lemma drop_duplicates_from_id:
  "distinct (map dup_key df) \<Longrightarrow> dup_key ` set df \<inter> set seen = {} \<Longrightarrow>
   drop_duplicates_from seen df = df"
  by (induction df arbitrary: seen) auto

lemma set_insort_rank: "set (insort_key f r df) = insert r (set df)"
  by (induction df) auto

lemma distinct_map_insort_rank:
  "distinct (map g (insort_key f r df)) = (g r \<notin> g ` set df \<and> distinct (map g df))"
  by (induction df) (auto simp: set_insort_rank)

lemma set_sort_values: "set (sort_values df) = set df"
  by (simp add: sort_values_def)

lemma distinct_sort_values:
  "distinct (map dup_key (sort_values df)) = distinct (map dup_key df)"
  unfolding sort_values_def
  by (induction df) (auto simp: distinct_map_insort_rank)

lemma sorted_sort_values: "sorted (map sort_rank (sort_values df))"
  by (simp add: sort_values_def)

lemma window_dedupe_sort_in_window:
  "r \<in> set (window_dedupe_sort lo hi df) \<Longrightarrow> in_window lo hi r"
  using set_drop_duplicates_from [of "[]" "window_filter lo hi df"]
  by (auto simp: window_dedupe_sort_def set_sort_values drop_duplicates_def window_filter_def)

lemma window_dedupe_sort_distinct:
  "distinct (map dup_key (window_dedupe_sort lo hi df))"
  by (simp add: window_dedupe_sort_def distinct_sort_values drop_duplicates_def
      distinct_drop_duplicates_from)

lemma window_dedupe_sort_sorted:
  "sorted (map sort_rank (window_dedupe_sort lo hi df))"
  by (simp add: window_dedupe_sort_def sorted_sort_values)

lemma window_dedupe_sort_idem:
  "window_dedupe_sort lo hi (window_dedupe_sort lo hi df) = window_dedupe_sort lo hi df"
proof -
  let ?out = "window_dedupe_sort lo hi df"
  have "window_filter lo hi ?out = ?out"
    unfolding window_filter_def filter_id_conv
    using window_dedupe_sort_in_window by blast
  moreover have "drop_duplicates ?out = ?out"
    unfolding drop_duplicates_def
    by (rule drop_duplicates_from_id) (simp_all add: window_dedupe_sort_distinct)
  moreover have "sort_values ?out = ?out"
    unfolding sort_values_def
    by (rule sort_key_id_if_sorted) (rule window_dedupe_sort_sorted)
  ultimately show ?thesis
    by (simp add: window_dedupe_sort_def [of lo hi ?out])
qed

lemma window_dedupe_sort_subset: "set (window_dedupe_sort lo hi df) \<subseteq> set df"
  using set_drop_duplicates_from [of "[]" "window_filter lo hi df"]
  by (auto simp: window_dedupe_sort_def set_sort_values drop_duplicates_def window_filter_def)

lemma window_dedupe_sort_not_NaT:
  "r \<in> set (window_dedupe_sort lo hi df) \<Longrightarrow> timestamp r \<noteq> None"
  using window_dedupe_sort_in_window [of r lo hi df]
  by (auto simp: in_window_def split: option.splits)

lemma first_occurrence_kept:
  "i < length df \<Longrightarrow> P (df ! i) \<Longrightarrow> dup_key (df ! i) \<notin> set seen \<Longrightarrow>
   dup_key (df ! i) \<notin> dup_key ` set (take i df) \<Longrightarrow>
   df ! i \<in> set (drop_duplicates_from seen (filter P df))"
proof (induction df arbitrary: seen i)
  case Nil
  then show ?case by simp
next
  case (Cons x xs)
  show ?case
  proof (cases i)
    case 0
    then show ?thesis using Cons.prems by simp
  next
    case (Suc j)
    have j: "j < length xs" "P (xs ! j)" "dup_key (xs ! j) \<notin> set seen"
      "dup_key (xs ! j) \<notin> dup_key ` set (take j xs)" "dup_key (xs ! j) \<noteq> dup_key x"
      using Cons.prems Suc by auto
    have "xs ! j \<in> set (drop_duplicates_from seen (filter P xs))"
      using Cons.IH [OF j(1-4)] .
    moreover have "xs ! j \<in> set (drop_duplicates_from (dup_key x # seen) (filter P xs))"
      using Cons.IH [of j "dup_key x # seen"] j by simp
    ultimately show ?thesis using Suc by simp
  qed
qed

lemma window_dedupe_sort_first_occurrence:
  assumes "i < length df" and "in_window lo hi (df ! i)"
    and "dup_key (df ! i) \<notin> dup_key ` set (take i df)"
  shows "df ! i \<in> set (window_dedupe_sort lo hi df)"
  using first_occurrence_kept [of i df "in_window lo hi" "[]"] assms
  by (simp add: window_dedupe_sort_def set_sort_values drop_duplicates_def window_filter_def)

lemma window_dedupe_sort_keys:
  "dup_key ` set (window_dedupe_sort lo hi df) = dup_key ` set (window_filter lo hi df)"
  by (simp add: window_dedupe_sort_def set_sort_values drop_duplicates_def
      keys_drop_duplicates_from)

section \<open>The kinds of timestamp columns\<close>

lemma naive_compare_raises_iff:
  "naive_compare_raises df = (column_tz df = Aware \<or> list_ex aware_value df)"
  by (auto simp: naive_compare_raises_def column_tz_def aware_value_def list_all_iff list_ex_iff
      split: tz_kind.splits if_splits)

lemma column_tz_Naive_output:
  assumes "\<not> naive_compare_raises df" and "set out \<subseteq> set df"
    and "\<And>r. r \<in> set out \<Longrightarrow> timestamp r \<noteq> None"
  shows "column_tz out = Naive"
proof -
  have "\<And>r. r \<in> set out \<Longrightarrow> \<not> tz_aware r"
  proof
    fix r assume r: "r \<in> set out" and "tz_aware r"
    then have "aware_value r" using assms(3) by (simp add: aware_value_def)
    moreover have "r \<in> set df" using r assms(2) by blast
    ultimately show False using assms(1) by (auto simp: naive_compare_raises_iff list_ex_iff)
  qed
  then show ?thesis by (simp add: column_tz_def list_all_iff)
qed

lemma column_tz_Aware_output:
  assumes "column_tz df = Aware" and "set out \<subseteq> set df"
  shows "out = [] \<or> column_tz out = Aware"
proof (cases out)
  case Nil
  then show ?thesis by simp
next
  case (Cons r rs)
  have "list_all tz_aware df" using assms(1) by (auto simp: column_tz_def split: if_splits)
  then have "list_all tz_aware out" using assms(2) by (auto simp: list_all_iff)
  then show ?thesis using Cons by (auto simp: column_tz_def)
qed

lemma fetch_pws_data_step_idem:
  "fetch_pws_data_step S E df_all = Inr df \<Longrightarrow> fetch_pws_data_step S E df = Inr df"
proof -
  assume a: "fetch_pws_data_step S E df_all = Inr df"
  then have no: "\<not> naive_compare_raises df_all"
    and df: "df = window_dedupe_sort (Timestamp S) (end_of_day E) df_all"
    by (auto simp: fetch_pws_data_step_def split: if_splits)
  have "column_tz df = Naive"
    using column_tz_Naive_output [OF no] window_dedupe_sort_subset window_dedupe_sort_not_NaT
    unfolding df by blast
  then have "\<not> naive_compare_raises df" by (simp add: naive_compare_raises_def)
  then show ?thesis unfolding fetch_pws_data_step_def by (simp add: df window_dedupe_sort_idem)
qed

lemma build_combined_step_idem:
  "build_combined_step ws E df_all = Inr df \<Longrightarrow> build_combined_step ws E df = Inr df"
proof -
  assume a: "build_combined_step ws E df_all = Inr df"
  show ?thesis
  proof (cases "column_tz df_all = Aware")
    case True
    then have df: "df = window_dedupe_sort (Timestamp (min_start ws)) (end_of_day E) df_all"
      using a by (simp add: build_combined_step_def)
    have "df = [] \<or> column_tz df = Aware"
      using column_tz_Aware_output [OF True] window_dedupe_sort_subset unfolding df by blast
    then show ?thesis
    proof
      assume "df = []"
      then show ?thesis
        by (simp add: build_combined_step_def column_tz_def naive_compare_raises_def
            window_dedupe_sort_def window_filter_def drop_duplicates_def sort_values_def)
    next
      assume "column_tz df = Aware"
      then show ?thesis unfolding build_combined_step_def by (simp add: df window_dedupe_sort_idem)
    qed
  next
    case False
    then have no: "\<not> naive_compare_raises df_all"
      and df: "df = window_dedupe_sort (Timestamp (min_start ws)) (Timestamp E + Timedelta_days 1)
                 df_all"
      using a by (auto simp: build_combined_step_def split: if_splits)
    have naive: "column_tz df = Naive"
      using column_tz_Naive_output [OF no] window_dedupe_sort_subset window_dedupe_sort_not_NaT
      unfolding df by blast
    then have "\<not> naive_compare_raises df" by (simp add: naive_compare_raises_def)
    then show ?thesis
      unfolding build_combined_step_def using naive by (simp add: df window_dedupe_sort_idem)
  qed
qed

section \<open>Uniqueness of the key in the final tables\<close>

text \<open>
  Claim C2. In the final table of every fetcher (the buoy, airport and both PWS fetchers),
  whenever one is produced, no two rows share both \<open>station_id\<close> and \<open>timestamp\<close>: the
  list of the pairs, row by row, has no repetition.
\<close>

theorem final_tables_unique_keys:
  "distinct (map dup_key (fetch_buoy_data_final START_DATE END_DATE all_frames))
   \<and> distinct (map dup_key (fetch_airport_data_final START_DATE END_DATE all_frames))
   \<and> (case fetch_pws_data_final START_DATE END_DATE all_frames of
         Inl e \<Rightarrow> True
       | Inr df \<Rightarrow> distinct (map dup_key df))
   \<and> (case build_combined_final station_windows END_DATE all_frames of
         Inl e \<Rightarrow> True
       | Inr df \<Rightarrow> distinct (map dup_key df))"
  by (simp add: fetch_buoy_data_final_def fetch_buoy_data_step_def
      fetch_airport_data_final_def fetch_airport_data_step_def
      fetch_pws_data_final_def fetch_pws_data_step_def
      build_combined_final_def build_combined_step_def window_dedupe_sort_distinct)

section \<open>Idempotence of the final step\<close>

text \<open>
  Claim C6. The step that drops the rows outside the window, drops the duplicates of
  \<open>(station_id, timestamp)\<close> and sorts is idempotent in every fetcher: applied to its own
  output it returns that output, row for row, in the same order.
\<close>

theorem final_step_idempotent:
  "fetch_buoy_data_step START_DATE END_DATE (fetch_buoy_data_step START_DATE END_DATE df_all)
     = fetch_buoy_data_step START_DATE END_DATE df_all
   \<and> fetch_airport_data_step START_DATE END_DATE
        (fetch_airport_data_step START_DATE END_DATE df_all)
     = fetch_airport_data_step START_DATE END_DATE df_all
   \<and> (case fetch_pws_data_step START_DATE END_DATE df_all of
         Inl e \<Rightarrow> True
       | Inr df \<Rightarrow> fetch_pws_data_step START_DATE END_DATE df = Inr df)
   \<and> (case build_combined_step station_windows END_DATE df_all of
         Inl e \<Rightarrow> True
       | Inr df \<Rightarrow> build_combined_step station_windows END_DATE df = Inr df)"
  using fetch_pws_data_step_idem [of START_DATE END_DATE df_all]
    build_combined_step_idem [of station_windows END_DATE df_all]
  by (auto simp: fetch_buoy_data_step_def fetch_airport_data_step_def window_dedupe_sort_idem
      split: sum.splits)

section \<open>The window at its upper end\<close>

text \<open>
  Claim C1. The claim is that the final filter keeps exactly the rows of
  \<open>[start_date, end_date + 1 day)\<close>, so that every row of the final table has
  \<open>start_date \<le> timestamp.date() \<le> end_date\<close>. With the window 2024-01-01 to 2024-01-02
  (the days 19723 and 19724): a buoy row at noon of the last day passes the filter of its
  file and is dropped by the final filter of \<open>fetch_buoy_data\<close>, though its date is the
  last day; and a PWS row with a naive timestamp at midnight after the last day is kept by
  \<open>build_combined_pws_observations\<close>, though its date is the day after.
\<close>

theorem window_upper_bound_divergence:
  "window_filter (Timestamp 19723) (end_of_day 19724)
       [\<lparr>station_id = ''46050'', timestamp = Some (Timestamp 19724 + 12 * 3600000000000),
         measurements = [], tz_aware = False\<rparr>]
     = [\<lparr>station_id = ''46050'', timestamp = Some (Timestamp 19724 + 12 * 3600000000000),
         measurements = [], tz_aware = False\<rparr>]
   \<and> fetch_buoy_data_final 19723 19724
       [[\<lparr>station_id = ''46050'', timestamp = Some (Timestamp 19724 + 12 * 3600000000000),
          measurements = [], tz_aware = False\<rparr>]] = []
   \<and> date_of (Timestamp 19724 + 12 * 3600000000000) = 19724
   \<and> build_combined_final [(''KORMCMIN127'', 19723)] 19724
       [[\<lparr>station_id = ''KORMCMIN127'', timestamp = Some (Timestamp 19725),
          measurements = [], tz_aware = False\<rparr>]]
     = Inr [\<lparr>station_id = ''KORMCMIN127'', timestamp = Some (Timestamp 19725),
             measurements = [], tz_aware = False\<rparr>]
   \<and> date_of (Timestamp 19725) = 19725"
  by (simp add: fetch_buoy_data_final_def fetch_buoy_data_step_def build_combined_final_def
      build_combined_step_def window_dedupe_sort_def window_filter_def in_window_def
      drop_duplicates_def sort_values_def Timestamp_def ns_per_day_def date_of_def
      Timedelta_days_def Timedelta_microseconds_def end_of_day_def min_start_def
      column_tz_def naive_compare_raises_def)

section \<open>A chunk whose body is not JSON\<close>

text \<open>
  Claim C3. The claim is that no failure of a chunk escapes the range fetcher. In
  \<open>fetch_pws_range\<close> of build_pws_observations.py, over the days 20077 to 20079
  (2024-12-20 to 2024-12-22), a response with status 200 and a body that is not JSON on
  the second day raises \<open>JSONDecodeError\<close> out of the range fetcher and out of
  \<open>build_combined_pws_observations\<close>; the third day is never requested.
\<close>

theorem unparseable_body_escapes_range_fetcher:
  "snd (fetch_pws_range (\<lambda>utc c. unit_value c) (sort_key timestamp_rank) 1
          (\<lambda>station day. if day = 20078 then Http 200 NotJson
             else Http 200 (Observations
                    [[(''obsTimeUtc'', Num (Timestamp day)), (''tempAvg'', Num 50)]]))
          ''KORMCMIN127'' 20077 20079) = Inl JSONDecodeError
   \<and> Request ''KORMCMIN127'' (Day 20079)
       \<notin> set (fst (fetch_pws_range (\<lambda>utc c. unit_value c) (sort_key timestamp_rank) 1
          (\<lambda>station day. if day = 20078 then Http 200 NotJson
             else Http 200 (Observations
                    [[(''obsTimeUtc'', Num (Timestamp day)), (''tempAvg'', Num 50)]]))
          ''KORMCMIN127'' 20077 20079))
   \<and> snd (build_combined_pws_observations (\<lambda>utc c. unit_value c) (sort_key timestamp_rank) 1
          (\<lambda>station day. if day = 20078 then Http 200 NotJson
             else Http 200 (Observations
                    [[(''obsTimeUtc'', Num (Timestamp day)), (''tempAvg'', Num 50)]]))
          [(''KORMCMIN127'', 20077)] 20079) = Inl JSONDecodeError"
  by (simp add: build_combined_pws_observations_def fetch_pws_range_def fetch_pws_days.simps
      fetch_pws_day_def raises_for_status_def)

section \<open>Two-digit years\<close>














text \<open>
  The conversion of \<open>fetch_ndbc_realtime\<close> is applied to every record: a record whose year
  field already is the four-digit 2024 is handed on with the year 4024, and no row is
  returned for it.
\<close>

lemma realtime_four_digit_year_dropped:
  "snd (fetch_ndbc_realtime_table (calendar_to_datetime True) (\<lambda>text. None) 19723 20088 ''46050''
          [''YY'', ''MM'', ''DD'', ''hh'', ''mm'', ''WDIR'']
          [[Num 2024, Num 3, Num 15, Num 12, Num 0, Num 270]]) = Inr []
   \<and> snd (fetch_ndbc_realtime_table (calendar_to_datetime False) (\<lambda>text. None) 19723 20088
          ''46050'' [''YY'', ''MM'', ''DD'', ''hh'', ''mm'', ''WDIR'']
          [[Num 2024, Num 3, Num 15, Num 12, Num 0, Num 270]]) = Inr []"
  by (simp add: fetch_ndbc_realtime_table_def dedupe_col_names_def has_time_cols_def
      time_cols_def ndbc_realtime_year_def ndbc_realtime_timestamp_def cell_at_def
      calendar_to_datetime_def unit_value_def set_column_def
      date_and_time_def days_in_month_def is_leap_def in_bounds_def civil_instant_def
      Timestamp_def ns_per_day_def ordinal_def days_before_year_def days_before_month_def
      window_filter_def in_window_def end_of_day_def Timedelta_days_def
      Timedelta_microseconds_def)

section \<open>Repeated header names\<close>

lemma seen_of_upd: "(seen_of c)(x \<mapsto> c x) = seen_of (c(x := Suc (c x)))"
  by (auto simp: seen_of_def fun_eq_iff)

lemma dedupe_loop_step:
  "dedupe_loop (seen_of c) (x # xs) =
     (if c x = 0 then x else x @ ''_'' @ str_nat (c x))
       # dedupe_loop (seen_of (c(x := Suc (c x)))) xs"
proof (cases "c x")
  case 0
  then have "seen_of c x = None" by (simp add: seen_of_def)
  moreover have "(seen_of c)(x \<mapsto> 0) = seen_of (c(x := Suc (c x)))"
    using seen_of_upd [of c x] 0 by simp
  ultimately show ?thesis using 0 by simp
next
  case (Suc k)
  then have "seen_of c x = Some k" by (simp add: seen_of_def)
  moreover have "(seen_of c)(x \<mapsto> k + 1) = seen_of (c(x := Suc (c x)))"
    using seen_of_upd [of c x] Suc by simp
  ultimately show ?thesis using Suc by simp
qed

lemma dedupe_loop_counts:
  "dedupe_loop (seen_of c) xs =
     map (\<lambda>i. if c (xs ! i) + count_list (take i xs) (xs ! i) = 0 then xs ! i
               else xs ! i @ ''_'' @ str_nat (c (xs ! i) + count_list (take i xs) (xs ! i)))
       [0..<length xs]"
proof (induction xs arbitrary: c)
  case Nil
  then show ?case by simp
next
  case (Cons x xs)
  show ?case
    unfolding dedupe_loop_step Cons.IH
    by (simp add: map_upt_Suc del: upt_Suc)
qed

lemma dedupe_col_names_rule:
  "dedupe_col_names raw_col_names =
     map (\<lambda>i. if count_list (take i raw_col_names) (raw_col_names ! i) = 0
               then raw_col_names ! i
               else raw_col_names ! i @ ''_''
                      @ str_nat (count_list (take i raw_col_names) (raw_col_names ! i)))
       [0..<length raw_col_names]"
  using dedupe_loop_counts [of "\<lambda>_. 0" raw_col_names]
  by (simp add: dedupe_col_names_def seen_of_def)

text \<open>
  Claim C5. The claim is that the repeated names of every header are deduplicated before
  the table is built. The loop of \<open>fetch_ndbc_realtime\<close> does so for the header of the
  claim (WDIR, WSPD, WDIR becomes WDIR, WSPD, WDIR\_1) and numbers further repeats (A, A, A
  becomes A, A\_1, A\_2). For the header WDIR, WDIR\_1, WDIR it returns WDIR, WDIR\_1,
  WDIR\_1: the suffixed name repeats a name of the header, and \<open>read_csv\<close> raises
  \<open>ValueError\<close> on the names, whatever the window and the records.
\<close>

theorem header_deduplication_leaves_repeat:
  "dedupe_col_names [''WDIR'', ''WSPD'', ''WDIR''] = [''WDIR'', ''WSPD'', ''WDIR_1'']
   \<and> dedupe_col_names [''A'', ''A'', ''A''] = [''A'', ''A_1'', ''A_2'']
   \<and> dedupe_col_names [''WDIR'', ''WDIR_1'', ''WDIR''] = [''WDIR'', ''WDIR_1'', ''WDIR_1'']
   \<and> \<not> distinct (dedupe_col_names [''WDIR'', ''WDIR_1'', ''WDIR''])
   \<and> snd (fetch_ndbc_realtime_table to_datetime_units int_of_text START_DATE END_DATE station
            [''WDIR'', ''WDIR_1'', ''WDIR''] [[Num 270, Num 5, Num 280]]) = Inl ValueError"
  by (simp add: fetch_ndbc_realtime_table_def dedupe_col_names_def str_nat.simps digit_char_def)

section \<open>The two station directories\<close>

text \<open>
  Claim C7. The claim is that both directories answer \<open>getStationInfo(sourceType,
  station_id)\<close> and can replace each other at every call site. The call
  \<open>get_station_info("airport", "KEUG")\<close> that \<open>get_airport_name\<close> makes returns the record of
  Eugene Airport from the static registry, and raises \<open>TypeError\<close> in the Postgres
  service, whatever the table holds, since that function takes the station alone.
\<close>

theorem station_directories_not_interchangeable:
  "registry_get_station_info [''airport'', ''KEUG'']
     = Inr (Some (snd (station_entry ''KEUG'' ''Eugene Airport'' ''airport'' ''Mesonet ASOS''
                         ''Willamette Valley'')))
   \<and> pg_get_station_info stations [''airport'', ''KEUG''] = Inl TypeError
   \<and> get_airport_name registry_get_station_info ''KEUG'' = Inr ''Eugene Airport''
   \<and> get_airport_name (pg_get_station_info stations) ''KEUG'' = Inl TypeError"
  by (simp add: get_airport_name_def registry_get_station_info_def pg_get_station_info_def
      STATION_REGISTRY_def station_entry_def)

section \<open>The delay between requests\<close>

lemma delays_enforced_append:
  "delays_enforced d p (es @ es') =
     (delays_enforced d p es \<and> delays_enforced d (pending_after d p es) es')"
  by (induction d p es rule: delays_enforced.induct) auto

lemma pending_after_append:
  "pending_after d p (es @ es') = pending_after d (pending_after d p es) es'"
  by (induction d p es rule: pending_after.induct) auto

lemma fetch_pws_day_trace:
  "delays_enforced d False (fst (fetch_pws_day td qs station day resp))
   \<and> pending_after d p (fst (fetch_pws_day td qs station day resp) @ [Sleep d]) = False"
  by (auto simp: fetch_pws_day_def pending_after_append split: response.splits pws_body.splits)

lemma fetch_pws_days_trace:
  "delays_enforced d False (fst (fetch_pws_days td qs d provider station current end_date))
   \<and> (case snd (fetch_pws_days td qs d provider station current end_date) of
        Inl e \<Rightarrow> True
      | Inr fs \<Rightarrow> pending_after d False (fst (fetch_pws_days td qs d provider station current end_date)) = False)"
proof (induction td qs d provider station current end_date rule: fetch_pws_days.induct)
  case (1 td qs d provider station current end_date)
  show ?case
  proof (cases "current \<le> end_date")
    case False
    then show ?thesis by (simp add: fetch_pws_days.simps)
  next
    case True
    obtain ev res where day: "fetch_pws_day td qs station current (provider station current) = (ev, res)"
      by (cases "fetch_pws_day td qs station current (provider station current)")
    have ev: "delays_enforced d False ev" "\<And>p. pending_after d p (ev @ [Sleep d]) = False"
      using fetch_pws_day_trace [of d td qs station current "provider station current"] day by simp_all
    show ?thesis
    proof (cases res)
      case (Inl e)
      then show ?thesis using True day ev by (simp add: fetch_pws_days.simps)
    next
      case (Inr df_day)
      obtain evs res' where rest:
        "fetch_pws_days td qs d provider station (current + 1) end_date = (evs, res')"
        by (cases "fetch_pws_days td qs d provider station (current + 1) end_date")
      have ih: "delays_enforced d False evs"
        "case res' of Inl e \<Rightarrow> True | Inr fs \<Rightarrow> pending_after d False evs = False"
        using "1.IH" [OF True day [symmetric] Inr] rest by (auto split: sum.splits)
      have tr: "ev @ Sleep d # evs = (ev @ [Sleep d]) @ evs" by simp
      have "delays_enforced d False (ev @ Sleep d # evs)"
        unfolding tr delays_enforced_append [of d False "ev @ [Sleep d]" evs]
        using ev ih(1) by (simp add: delays_enforced_append)
      moreover have "pending_after d False (ev @ Sleep d # evs) = pending_after d False evs"
        unfolding tr pending_after_append [of d False "ev @ [Sleep d]" evs] using ev(2) by simp
      ultimately show ?thesis
        using True day Inr rest ih(2)
        by (cases res') (simp_all add: fetch_pws_days.simps [of td qs d provider station current end_date])
    qed
  qed
qed

lemma fetch_pws_range_trace:
  "delays_enforced d False (fst (fetch_pws_range td qs d provider station start_date end_date))
   \<and> (case snd (fetch_pws_range td qs d provider station start_date end_date) of
        Inl e \<Rightarrow> True
      | Inr df \<Rightarrow> pending_after d False
                  (fst (fetch_pws_range td qs d provider station start_date end_date)) = False)"
proof -
  obtain ev res where days: "fetch_pws_days td qs d provider station start_date end_date = (ev, res)"
    by (cases "fetch_pws_days td qs d provider station start_date end_date")
  have "delays_enforced d False ev"
    "case res of Inl e \<Rightarrow> True | Inr fs \<Rightarrow> pending_after d False ev = False"
    using fetch_pws_days_trace [of d td qs provider station start_date end_date] days
    by (auto split: sum.splits)
  then show ?thesis
    using days
    by (cases res) (simp_all add: fetch_pws_range_def delays_enforced_append pending_after_append)
qed

lemma fetch_pws_stations_trace:
  "delays_enforced d False (fst (fetch_pws_stations td qs d provider end_date station_windows))
   \<and> (case snd (fetch_pws_stations td qs d provider end_date station_windows) of
        Inl e \<Rightarrow> True
      | Inr fs \<Rightarrow> pending_after d False
                  (fst (fetch_pws_stations td qs d provider end_date station_windows)) = False)"
proof (induction station_windows)
  case Nil
  then show ?case by simp
next
  case (Cons w ws)
  obtain station start_date where w: "w = (station, start_date)" by (cases w)
  obtain evs res' where rest: "fetch_pws_stations td qs d provider end_date ws = (evs, res')"
    by (cases "fetch_pws_stations td qs d provider end_date ws")
  have ih: "delays_enforced d False evs"
    "case res' of Inl e \<Rightarrow> True | Inr fs \<Rightarrow> pending_after d False evs = False"
    using Cons.IH rest by (auto split: sum.splits)
  show ?case
  proof (cases "start_date > end_date")
    case True
    then show ?thesis using w rest ih by (cases res') simp_all
  next
    case False
    obtain ev res where range:
      "fetch_pws_range td qs d provider station start_date end_date = (ev, res)"
      by (cases "fetch_pws_range td qs d provider station start_date end_date")
    have ev: "delays_enforced d False ev"
      "case res of Inl e \<Rightarrow> True | Inr df \<Rightarrow> pending_after d False ev = False"
      using fetch_pws_range_trace [of d td qs provider station start_date end_date] range
      by (auto split: sum.splits)
    show ?thesis
    proof (cases res)
      case (Inl e)
      then show ?thesis using False w range ev by simp
    next
      case (Inr df)
      then have "pending_after d False ev = False" using ev(2) by simp
      then show ?thesis
        using False w range rest Inr ev(1) ih
        by (cases res') (simp_all add: delays_enforced_append pending_after_append)
    qed
  qed
qed

lemma fetch_ndbc_year_no_sleep:
  "Sleep x \<notin> set (fst (fetch_ndbc_year td S E station year resp))"
  by (auto simp: fetch_ndbc_year_def fetch_ndbc_year_table_def Let_def
      split: response.splits ndbc_archive.splits list.splits if_splits sum.splits)

lemma fetch_ndbc_realtime_no_sleep:
  "Sleep x \<notin> set (fst (fetch_ndbc_realtime td iot S E station resp))"
  by (auto simp: fetch_ndbc_realtime_def fetch_ndbc_realtime_table_def Let_def
      split: response.splits ndbc_feed.splits option.splits sum.splits if_splits)

lemma fetch_buoy_years_no_sleep:
  "Sleep x \<notin> set (fst (fetch_buoy_years td S E archive station years))"
proof (induction years)
  case Nil
  then show ?case by simp
next
  case (Cons year years)
  obtain ev res where y: "fetch_ndbc_year td S E station year (archive station year) = (ev, res)"
    by (cases "fetch_ndbc_year td S E station year (archive station year)")
  obtain evs res' where rest: "fetch_buoy_years td S E archive station years = (evs, res')"
    by (cases "fetch_buoy_years td S E archive station years")
  have "Sleep x \<notin> set ev"
    using fetch_ndbc_year_no_sleep [of x td S E station year "archive station year"] y by simp
  moreover have "Sleep x \<notin> set evs" using Cons.IH rest by simp
  ultimately show ?case using y rest by (cases res; cases res') simp_all
qed

lemma fetch_buoy_stations_no_sleep:
  "Sleep x \<notin> set (fst (fetch_buoy_stations td iot S E archive feed years stations))"
proof (induction stations)
  case Nil
  then show ?case by simp
next
  case (Cons station stations)
  obtain ev_y res_y where ys: "fetch_buoy_years td S E archive station years = (ev_y, res_y)"
    by (cases "fetch_buoy_years td S E archive station years")
  obtain ev_rt res_rt where rt: "fetch_ndbc_realtime td iot S E station (feed station) = (ev_rt, res_rt)"
    by (cases "fetch_ndbc_realtime td iot S E station (feed station)")
  obtain evs res where rest: "fetch_buoy_stations td iot S E archive feed years stations = (evs, res)"
    by (cases "fetch_buoy_stations td iot S E archive feed years stations")
  have "Sleep x \<notin> set ev_y"
    using fetch_buoy_years_no_sleep [of x td S E archive station years] ys by simp
  moreover have "Sleep x \<notin> set ev_rt"
    using fetch_ndbc_realtime_no_sleep [of x td iot S E station "feed station"] rt by simp
  moreover have "Sleep x \<notin> set evs" using Cons.IH rest by simp
  ultimately show ?case
    using ys rt rest by (cases res_y; cases res_rt; cases res) simp_all
qed

lemma fetch_buoy_data_no_sleep:
  "Sleep x \<notin> set (fst (fetch_buoy_data td iot START_DATE END_DATE archive feed))"
proof -
  obtain sy sm sd ey em ed where w: "START_DATE = (sy, sm, sd)" "END_DATE = (ey, em, ed)"
    by (cases START_DATE; cases END_DATE) auto
  obtain ev res where run: "fetch_buoy_stations td iot (ordinal sy sm sd) (ordinal ey em ed)
      archive feed [sy..ey - 1] BUOY_STATIONS = (ev, res)"
    by (cases "fetch_buoy_stations td iot (ordinal sy sm sd) (ordinal ey em ed) archive feed
      [sy..ey - 1] BUOY_STATIONS")
  have "Sleep x \<notin> set ev"
    using fetch_buoy_stations_no_sleep [of x td iot "ordinal sy sm sd" "ordinal ey em ed"
        archive feed "[sy..ey - 1]" BUOY_STATIONS] run by simp
  then show ?thesis using w run by (cases res) (simp_all add: fetch_buoy_data_def)
qed

text \<open>
  Claim C8, as the claim states it: in every range fetcher the configured delay lies
  between two successive requests. \<open>fetch_buoy_data\<close>, with the window 2024-01-01 to
  2025-06-01 and no answer to any request, issues the request for the archive of 2024 and
  the request for the realtime feed of each station one after the other, with no sleep in
  between: its trace does not pass the check for a delay of one second.
\<close>

theorem buoy_requests_without_delay:
  "\<not> delays_enforced 1 False
    (fst (fetch_buoy_data (calendar_to_datetime True) (\<lambda>text. None) (2024, 1, 1) (2025, 6, 1)
            (\<lambda>station year. NetworkError) (\<lambda>station. NetworkError)))"
  by (simp add: fetch_buoy_data_def BUOY_STATIONS_def fetch_ndbc_year_def
      fetch_ndbc_realtime_def upto.simps)

text \<open>
  Claim C8, amended. In build\_pws\_observations.py a sleep of \<open>REQUEST_SLEEP_SECONDS\<close>
  follows every request of \<open>fetch_pws_range\<close>: in the trace of a range, and in the trace of
  a whole run of \<open>build_combined_pws_observations\<close> over all its stations, no request
  comes after another one without a sleep of that length in between, for every value of
  the setting. \<open>fetch_buoy_data\<close> never sleeps.
\<close>

theorem pws_builder_delay_enforced:
  "delays_enforced REQUEST_SLEEP_SECONDS False
     (fst (fetch_pws_range to_datetime quicksort REQUEST_SLEEP_SECONDS provider station
             start_date end_date))
   \<and> delays_enforced REQUEST_SLEEP_SECONDS False
     (fst (build_combined_pws_observations to_datetime quicksort REQUEST_SLEEP_SECONDS provider
             station_windows end_date))
   \<and> Sleep x \<notin> set (fst (fetch_buoy_data to_datetime_units int_of_text START_DATE END_DATE
                            archive feed))"
proof -
  obtain ev res where run:
    "fetch_pws_stations to_datetime quicksort REQUEST_SLEEP_SECONDS provider end_date
       station_windows = (ev, res)"
    by (cases "fetch_pws_stations to_datetime quicksort REQUEST_SLEEP_SECONDS provider end_date
       station_windows")
  have "delays_enforced REQUEST_SLEEP_SECONDS False ev"
    using fetch_pws_stations_trace [of REQUEST_SLEEP_SECONDS to_datetime quicksort provider
        end_date station_windows] run
    by simp
  then have "delays_enforced REQUEST_SLEEP_SECONDS False
     (fst (build_combined_pws_observations to_datetime quicksort REQUEST_SLEEP_SECONDS provider
             station_windows end_date))"
    using run
    by (cases res) (simp_all add: build_combined_pws_observations_def delays_enforced_append)
  then show ?thesis
    using fetch_pws_range_trace [of REQUEST_SLEEP_SECONDS to_datetime quicksort provider station
        start_date end_date]
      fetch_buoy_data_no_sleep [of x to_datetime_units int_of_text START_DATE END_DATE archive feed]
    by simp
qed

section \<open>The lower bound of the combined PWS table\<close>

lemma min_start_least:
  assumes "(station, earliest) \<in> set station_windows"
    and "\<forall>w \<in> set station_windows. earliest \<le> snd w"
  shows "min_start station_windows = earliest"
  unfolding min_start_def
proof (rule Min_eqI)
  show "finite (set (map snd station_windows))" by simp
  show "\<And>y. y \<in> set (map snd station_windows) \<Longrightarrow> earliest \<le> y" using assms(2) by auto
  show "earliest \<in> set (map snd station_windows)" using assms(1) by force
qed

lemma build_combined_final_cases:
  assumes "build_combined_final station_windows end_date all_frames = Inr df"
    and "all_frames \<noteq> []"
  shows "df = window_dedupe_sort (Timestamp (min_start station_windows)) (end_of_day end_date)
               (concat all_frames)
       \<or> df = window_dedupe_sort (Timestamp (min_start station_windows))
               (Timestamp end_date + Timedelta_days 1) (concat all_frames)"
  using assms by (auto simp: build_combined_final_def build_combined_step_def split: if_splits)

text \<open>
  Claim C9, as the claim states it: a row of a later-starting station that is stamped
  between the earliest start date and the station's own start date is retained in the
  final table. With the start dates 2024-12-20 (day 20077) and 2025-04-25 (day 20203):
  of two such rows with the same station and timestamp only the first is in the table;
  and when a frame of aware timestamps and a frame of naive ones are combined, the filter
  raises \<open>TypeError\<close> and there is no table.
\<close>

theorem later_duplicate_row_not_retained:
  "build_combined_final [(''KORMCMIN127'', 20077), (''KORMCMIN133'', 20203)] 20300
     [[\<lparr>station_id = ''KORMCMIN133'', timestamp = Some (Timestamp 20100),
        measurements = [(''tempAvg'', Num 50)], tz_aware = True\<rparr>,
       \<lparr>station_id = ''KORMCMIN133'', timestamp = Some (Timestamp 20100),
        measurements = [(''tempAvg'', Num 51)], tz_aware = True\<rparr>]]
   = Inr [\<lparr>station_id = ''KORMCMIN133'', timestamp = Some (Timestamp 20100),
           measurements = [(''tempAvg'', Num 50)], tz_aware = True\<rparr>]
   \<and> build_combined_final [(''KORMCMIN127'', 20077), (''KORMCMIN133'', 20203)] 20300
     [[\<lparr>station_id = ''KORMCMIN127'', timestamp = Some (Timestamp 20100),
        measurements = [(''tempAvg'', Num 50)], tz_aware = True\<rparr>],
      [\<lparr>station_id = ''KORMCMIN133'', timestamp = Some (Timestamp 20100),
        measurements = [(''tempAvg'', Num 51)], tz_aware = False\<rparr>]]
   = Inl TypeError"
  by (simp add: build_combined_final_def build_combined_step_def column_tz_def
      naive_compare_raises_def aware_value_def min_start_def window_dedupe_sort_def
      window_filter_def in_window_def drop_duplicates_def sort_values_def dup_key_def
      Timestamp_def ns_per_day_def end_of_day_def Timedelta_days_def Timedelta_microseconds_def)

text \<open>
  Claim C9, amended. Let \<open>earliest\<close> be the least start date of \<open>station_windows\<close>, and let
  \<open>build_combined_pws_observations\<close> produce a final table. A row of a fetched station (its
  start date is not after the end date) that is stamped before that station's own start
  date, but not before midnight of \<open>earliest\<close>, passes the filter: a row with its
  \<open>(station_id, timestamp)\<close> is in the final table, and the row itself is, unless an
  earlier row of the concatenated frames has the same pair. No row of the final table is
  stamped before midnight of \<open>earliest\<close>. The start date of the row's own station plays
  no part.
\<close>

theorem earliest_start_bounds_every_station:
  assumes least: "(first_station, earliest) \<in> set station_windows"
      "\<forall>w \<in> set station_windows. earliest \<le> snd w"
    and station: "(station, start_date) \<in> set station_windows" "start_date \<le> end_date"
    and run: "build_combined_final station_windows end_date all_frames = Inr df"
    and row: "i < length (concat all_frames)" "concat all_frames ! i = r"
      "station_id r = station" "timestamp r = Some t"
    and stamp: "Timestamp earliest \<le> t" "t < Timestamp start_date"
  shows "(\<exists>r' \<in> set df. dup_key r' = dup_key r)
       \<and> (dup_key r \<notin> dup_key ` set (take i (concat all_frames)) \<longrightarrow> r \<in> set df)
       \<and> (\<forall>r' \<in> set df. \<exists>t'. timestamp r' = Some t' \<and> Timestamp earliest \<le> t')"
proof -
  have ne: "all_frames \<noteq> []" using row(1) by auto
  have lo: "min_start station_windows = earliest" using least by (rule min_start_least)
  have "Timestamp start_date \<le> Timestamp end_date"
    using station(2) by (simp add: Timestamp_def ns_per_day_def)
  then have hi: "t \<le> end_of_day end_date" "t \<le> Timestamp end_date + Timedelta_days 1"
    using stamp(2)
    by (simp_all add: end_of_day_def Timedelta_days_def Timedelta_microseconds_def ns_per_day_def)
  obtain hi_ts where df: "df = window_dedupe_sort (Timestamp earliest) hi_ts (concat all_frames)"
    and t_hi: "t \<le> hi_ts"
    using build_combined_final_cases [OF run ne] hi unfolding lo by blast
  have inw: "in_window (Timestamp earliest) hi_ts (concat all_frames ! i)"
    using row(2,4) stamp(1) t_hi by (simp add: in_window_def)
  have mem: "r \<in> set (concat all_frames)" using row(1,2) nth_mem by blast
  have "dup_key r \<in> dup_key ` set df"
    unfolding df window_dedupe_sort_keys using mem inw row(2) by (simp add: window_filter_def)
  then have key: "\<exists>r' \<in> set df. dup_key r' = dup_key r" by auto
  have first: "dup_key r \<notin> dup_key ` set (take i (concat all_frames)) \<longrightarrow> r \<in> set df"
    using window_dedupe_sort_first_occurrence [OF row(1) inw] row(2) unfolding df by simp
  have bound: "\<forall>r' \<in> set df. \<exists>t'. timestamp r' = Some t' \<and> Timestamp earliest \<le> t'"
  proof
    fix r' assume "r' \<in> set df"
    then have "in_window (Timestamp earliest) hi_ts r'"
      unfolding df by (rule window_dedupe_sort_in_window)
    then show "\<exists>t'. timestamp r' = Some t' \<and> Timestamp earliest \<le> t'"
      by (cases "timestamp r'") (simp_all add: in_window_def)
  qed
  show ?thesis using key first bound by blast
qed

theorem earliest_start_bounds_every_station_witness:
  "build_combined_final [(''KORMCMIN133'', 20203), (''KORMCMIN127'', 20077)] 20300
     [[\<lparr>station_id = ''KORMCMIN133'', timestamp = Some (Timestamp 20100),
        measurements = [(''tempAvg'', Num 50)], tz_aware = True\<rparr>]]
   = Inr [\<lparr>station_id = ''KORMCMIN133'', timestamp = Some (Timestamp 20100),
           measurements = [(''tempAvg'', Num 50)], tz_aware = True\<rparr>]
   \<and> Timestamp 20077 \<le> Timestamp 20100 \<and> Timestamp 20100 < Timestamp 20203
   \<and> \<lparr>station_id = ''KORMCMIN133'', timestamp = Some (Timestamp 20100),
        measurements = [(''tempAvg'', Num 50)], tz_aware = True\<rparr>
       \<in> set [\<lparr>station_id = ''KORMCMIN133'', timestamp = Some (Timestamp 20100),
                measurements = [(''tempAvg'', Num 50)], tz_aware = True\<rparr>]"
  using earliest_start_bounds_every_station
    [of "''KORMCMIN127''" 20077 "[(''KORMCMIN133'', 20203), (''KORMCMIN127'', 20077)]"
      "''KORMCMIN133''" 20203 20300
      "[[\<lparr>station_id = ''KORMCMIN133'', timestamp = Some (Timestamp 20100),
        measurements = [(''tempAvg'', Num 50)], tz_aware = True\<rparr>]]"
      "[\<lparr>station_id = ''KORMCMIN133'', timestamp = Some (Timestamp 20100),
        measurements = [(''tempAvg'', Num 50)], tz_aware = True\<rparr>]"
      0
      "\<lparr>station_id = ''KORMCMIN133'', timestamp = Some (Timestamp 20100),
        measurements = [(''tempAvg'', Num 50)], tz_aware = True\<rparr>"
      "Timestamp 20100"]
  by (simp add: build_combined_final_def build_combined_step_def column_tz_def
      naive_compare_raises_def aware_value_def min_start_def window_dedupe_sort_def
      window_filter_def in_window_def drop_duplicates_def sort_values_def dup_key_def
      Timestamp_def ns_per_day_def end_of_day_def Timedelta_days_def Timedelta_microseconds_def)

section \<open>The station identifier of the airport rows\<close>




end
